theory Spec2Isabelle
  imports Main "HOL-Library.Word"
begin

unbundle bit_operations_syntax

section \<open>Common vocabulary\<close>

text \<open>
  The runtime is C++: a failed \<^verbatim>\<open>assert\<close> aborts the process, an index past the
  end of a \<^verbatim>\<open>std::vector\<close> and the conversion of a negative \<^verbatim>\<open>double\<close> to
  \<^verbatim>\<open>size_t\<close> are undefined behaviour. Each of them is a branch of the model that
  returns an error value.
\<close>

datatype error =
    AssertionFailed
  | IndexOutOfRange
  | NegativeResize
  | NullDereference

text \<open>
  A \<^verbatim>\<open>std::function<void()>\<close> is a callback identity, or empty (\<open>None\<close>, the
  source's \<^verbatim>\<open>nullptr\<close>). A \<^verbatim>\<open>std::shared_ptr\<close> is a handle, or empty.
\<close>

type_synonym callback = "nat option"
type_synonym handle = nat

text \<open>
  Constants of the system headers (\<^verbatim>\<open><errno.h>\<close>, \<^verbatim>\<open><sys/socket.h>\<close>), with their
  values on Linux.
\<close>

definition EINTR :: int where "EINTR = 4"
definition EBADF :: int where "EBADF = 9"
definition EAGAIN :: int where "EAGAIN = 11"
definition ETIMEDOUT :: int where "ETIMEDOUT = 110"
definition SO_RCVTIMEO :: int where "SO_RCVTIMEO = 20"
definition SO_SNDTIMEO :: int where "SO_SNDTIMEO = 21"

section \<open>fd_manager.h, fd_manager.cpp\<close>

record FdCtx =
  m_isInit :: bool
  m_isSocket :: bool
  m_sysNonblock :: bool
  m_userNonblock :: bool
  m_isClosed :: bool
  m_fd :: int
  m_recvTimeout :: "64 word"
  m_sendTimeout :: "64 word"

text \<open>The member initialisers of \<^verbatim>\<open>class FdCtx\<close>, before the constructor body runs.\<close>

definition FdCtx_fields :: "int \<Rightarrow> FdCtx" where
  "FdCtx_fields fd =
     \<lparr> m_isInit = False, m_isSocket = False, m_sysNonblock = False,
       m_userNonblock = False, m_isClosed = False, m_fd = fd,
       m_recvTimeout = - 1, m_sendTimeout = - 1 \<rparr>"

text \<open>
  \<^verbatim>\<open>FdCtx::init\<close>. What \<^verbatim>\<open>fstat\<close> answers is the operating system's: \<open>None\<close> when it
  returns -1, otherwise \<open>Some b\<close> with \<open>b\<close> the value of \<^verbatim>\<open>S_ISSOCK\<close>. The result
  is the returned flag and the updated object.
\<close>

definition FdCtx_init :: "bool option \<Rightarrow> FdCtx \<Rightarrow> bool \<times> FdCtx" where
  "FdCtx_init fstat_answer c =
     (if m_isInit c then (True, c)
      else
        let c1 = (case fstat_answer of
                    None \<Rightarrow> c\<lparr> m_isInit := False, m_isSocket := False \<rparr>
                  | Some is_sock \<Rightarrow> c\<lparr> m_isInit := True, m_isSocket := is_sock \<rparr>);
            c2 = (if m_isSocket c1 then c1\<lparr> m_sysNonblock := True \<rparr>
                  else c1\<lparr> m_sysNonblock := False \<rparr>)
        in (m_isInit c2, c2))"

definition FdCtx_new :: "bool option \<Rightarrow> int \<Rightarrow> FdCtx" where
  "FdCtx_new fstat_answer fd = snd (FdCtx_init fstat_answer (FdCtx_fields fd))"

text \<open>\<^verbatim>\<open>FdCtx::setTimeout\<close> and \<^verbatim>\<open>FdCtx::getTimeout\<close>.\<close>

definition FdCtx_setTimeout :: "int \<Rightarrow> 64 word \<Rightarrow> FdCtx \<Rightarrow> FdCtx" where
  "FdCtx_setTimeout type v c =
     (if type = SO_RCVTIMEO then c\<lparr> m_recvTimeout := v \<rparr> else c\<lparr> m_sendTimeout := v \<rparr>)"

definition FdCtx_getTimeout :: "int \<Rightarrow> FdCtx \<Rightarrow> 64 word" where
  "FdCtx_getTimeout type c = (if type = SO_RCVTIMEO then m_recvTimeout c else m_sendTimeout c)"

record FdManager =
  m_datas :: "FdCtx option list"

text \<open>\<^verbatim>\<open>FdManager::FdManager\<close>: \<^verbatim>\<open>m_datas.resize(64)\<close> on the empty vector.\<close>

definition FdManager_new :: FdManager where
  "FdManager_new = \<lparr> m_datas = replicate 64 None \<rparr>"

text \<open>\<^verbatim>\<open>std::vector::resize\<close>: cut, or pad with empty handles.\<close>

definition resize :: "nat \<Rightarrow> 'a option list \<Rightarrow> 'a option list" where
  "resize n xs = (if n \<le> length xs then take n xs else xs @ replicate (n - length xs) None)"

text \<open>
  The comparison \<^verbatim>\<open>m_datas.size() <= fd\<close> has a \<^verbatim>\<open>size_t\<close> on the left and an
  \<^verbatim>\<open>int\<close> on the right: the \<^verbatim>\<open>int\<close> is converted to the unsigned 64-bit type, so a
  negative descriptor compares as a very large number.
\<close>

definition to_size_t :: "int \<Rightarrow> int" where
  "to_size_t i = i mod 2 ^ 64"

text \<open>
  The argument of \<^verbatim>\<open>resize(fd*1.5)\<close> is a \<^verbatim>\<open>double\<close>; a 32-bit \<^verbatim>\<open>int\<close> times 1.5 is
  exact in a double, and the conversion to \<^verbatim>\<open>size_t\<close> drops the fraction. For a
  negative value that conversion is undefined.
\<close>

definition times_1_5 :: "int \<Rightarrow> error + nat" where
  "times_1_5 fd = (if fd < 0 then Inl NegativeResize else Inr (nat ((3 * fd) div 2)))"

text \<open>
  \<^verbatim>\<open>FdManager::get\<close>. The result is the returned handle (\<open>None\<close> for \<^verbatim>\<open>nullptr\<close>)
  and the manager afterwards. \<open>fstat_answer\<close> is only consulted when a context is created.
\<close>

definition FdManager_get ::
  "bool option \<Rightarrow> int \<Rightarrow> bool \<Rightarrow> FdManager \<Rightarrow> error + (FdCtx option \<times> FdManager)" where
  "FdManager_get fstat_answer fd auto_create s =
     (if fd = - 1 then Inr (None, s)
      else
        let beyond = (int (length (m_datas s)) \<le> to_size_t fd) in
        if beyond \<and> \<not> auto_create then Inr (None, s)
        else if \<not> beyond \<and> (m_datas s ! nat fd \<noteq> None \<or> \<not> auto_create)
          then Inr (m_datas s ! nat fd, s)
        else
          (case (if beyond
                 then (case times_1_5 fd of
                         Inl e \<Rightarrow> Inl e
                       | Inr n \<Rightarrow> Inr (resize n (m_datas s)))
                 else Inr (m_datas s)) of
             Inl e \<Rightarrow> Inl e
           | Inr ds \<Rightarrow>
               if length ds \<le> nat fd then Inl IndexOutOfRange
               else
                 let c = FdCtx_new fstat_answer fd;
                     ds' = ds[nat fd := Some c]
                 in Inr (ds' ! nat fd, s\<lparr> m_datas := ds' \<rparr>)))"

text \<open>
  \<^verbatim>\<open>FdManager::get\<close> once more, now with what it does to \<^verbatim>\<open>m_mutex\<close> and to the
  vector, in order. \<^verbatim>\<open>read_lock\<close> is a \<^verbatim>\<open>std::shared_lock\<close>, released by
  \<^verbatim>\<open>read_lock.unlock()\<close> or, on the two early returns, when it goes out of scope;
  \<^verbatim>\<open>write_lock\<close> is a \<^verbatim>\<open>std::unique_lock\<close>, released when the function returns. The
  test \<^verbatim>\<open>m_datas.size() <= fd\<close> is made again under the write lock; nothing runs in
  between here, so it has the same answer.
\<close>

datatype lock_op =
    Read_lock
  | Read_unlock
  | Write_lock
  | Write_unlock
  | Vector_resize nat
  | Vector_store nat

definition FdManager_get_locked ::
  "bool option \<Rightarrow> int \<Rightarrow> bool \<Rightarrow> FdManager
     \<Rightarrow> lock_op list \<times> (error + (FdCtx option \<times> FdManager))" where
  "FdManager_get_locked fstat_answer fd auto_create s =
     (if fd = - 1 then ([], Inr (None, s))
      else
        let beyond = (int (length (m_datas s)) \<le> to_size_t fd) in
        if beyond \<and> \<not> auto_create then ([Read_lock, Read_unlock], Inr (None, s))
        else if \<not> beyond \<and> (m_datas s ! nat fd \<noteq> None \<or> \<not> auto_create)
          then ([Read_lock, Read_unlock], Inr (m_datas s ! nat fd, s))
        else
          let locked = [Read_lock, Read_unlock, Write_lock] in
          (case (if beyond
                 then (case times_1_5 fd of
                         Inl e \<Rightarrow> Inl e
                       | Inr n \<Rightarrow> Inr ([Vector_resize n], resize n (m_datas s)))
                 else Inr ([], m_datas s)) of
             Inl e \<Rightarrow> (locked, Inl e)
           | Inr (grown, ds) \<Rightarrow>
               if length ds \<le> nat fd then (locked @ grown, Inl IndexOutOfRange)
               else
                 let c = FdCtx_new fstat_answer fd;
                     ds' = ds[nat fd := Some c]
                 in (locked @ grown @ [Vector_store (nat fd), Write_unlock],
                     Inr (ds' ! nat fd, s\<lparr> m_datas := ds' \<rparr>))))"

text \<open>
  A sequence of lock and vector operations in which every change of the vector is made
  while the lock is held for writing. The first argument is how the lock is held at the
  start.
\<close>

datatype lock_mode = Unlocked | Shared | Exclusive

fun writes_locked :: "lock_mode \<Rightarrow> lock_op list \<Rightarrow> bool" where
  "writes_locked m [] = True"
| "writes_locked m (Read_lock # ops) = writes_locked Shared ops"
| "writes_locked m (Read_unlock # ops) = writes_locked Unlocked ops"
| "writes_locked m (Write_lock # ops) = writes_locked Exclusive ops"
| "writes_locked m (Write_unlock # ops) = writes_locked Unlocked ops"
| "writes_locked m (Vector_resize n # ops) = (m = Exclusive \<and> writes_locked m ops)"
| "writes_locked m (Vector_store i # ops) = (m = Exclusive \<and> writes_locked m ops)"

text \<open>Readers of a result of \<^verbatim>\<open>get\<close>: the size of the array afterwards, and the handle.\<close>

definition capacity_after :: "error + (FdCtx option \<times> FdManager) \<Rightarrow> nat option" where
  "capacity_after r = (case r of Inl e \<Rightarrow> None | Inr (c, s') \<Rightarrow> Some (length (m_datas s')))"

definition returned_handle :: "error + (FdCtx option \<times> FdManager) \<Rightarrow> FdCtx option" where
  "returned_handle r = (case r of Inl e \<Rightarrow> None | Inr (c, s') \<Rightarrow> c)"

text \<open>
  The growth target in the words of the specification, for comparison with the code's:
  \<open>fd * 1.5\<close> rounded up.
\<close>

definition spec_ceil_1_5 :: "int \<Rightarrow> nat" where
  "spec_ceil_1_5 fd = nat ((3 * fd + 1) div 2)"

text \<open>\<^verbatim>\<open>FdManager::del\<close>.\<close>

definition FdManager_del :: "int \<Rightarrow> FdManager \<Rightarrow> error + FdManager" where
  "FdManager_del fd s =
     (if int (length (m_datas s)) \<le> to_size_t fd then Inr s
      else if fd < 0 then Inl IndexOutOfRange
      else Inr (s\<lparr> m_datas := (m_datas s)[nat fd := None] \<rparr>))"

section \<open>fiber.h, fiber.cpp\<close>

datatype State = READY | RUNNING | TERM

record Fiber =
  m_id :: "64 word"
  m_stacksize :: "32 word"
  m_state :: State
  m_stack :: "nat option"
  m_cb :: callback
  m_runInScheduler :: bool

text \<open>
  \<^verbatim>\<open>Fiber::Fiber(cb, stacksize, run_in_scheduler)\<close>. \<open>stacksize\<close> is a \<^verbatim>\<open>size_t\<close>, the
  field \<^verbatim>\<open>m_stacksize\<close> a \<^verbatim>\<open>uint32_t\<close>: the assignment keeps the low 32 bits.
  \<^verbatim>\<open>m_stack = malloc(m_stacksize)\<close> is recorded as the number of bytes asked for.
  \<open>s_fiber_id\<close> is the global counter the identifier is taken from.
\<close>

definition Fiber_new :: "64 word \<Rightarrow> callback \<Rightarrow> 64 word \<Rightarrow> bool \<Rightarrow> Fiber" where
  "Fiber_new s_fiber_id cb stacksize run_in_scheduler =
     (let sz = (ucast (if stacksize \<noteq> 0 then stacksize else 128000) :: 32 word)
      in \<lparr> m_id = s_fiber_id, m_stacksize = sz, m_state = READY,
           m_stack = Some (unat sz), m_cb = cb, m_runInScheduler = run_in_scheduler \<rparr>)"

section \<open>timer.h, timer.cpp\<close>

text \<open>
  A \<^verbatim>\<open>std::chrono::system_clock::time_point\<close> is a count of nanoseconds, a signed
  64-bit number. Each call of \<^verbatim>\<open>system_clock::now()\<close> is an argument of the model.
  Signed overflow is undefined in C++ and wraps around on the machine: where the source
  computes a deadline the model wraps (\<open>plus_ms\<close>), and the results about the
  difference \<^verbatim>\<open>time - now\<close> carry \<open>clock_ok\<close> (below) as a hypothesis.
\<close>

type_synonym time_point = int

definition in_int64 :: "int \<Rightarrow> bool" where
  "in_int64 t = (- (2 ^ 63) \<le> t \<and> t < 2 ^ 63)"

text \<open>The value a signed 64-bit computation leaves when its exact result is \<open>x\<close>.\<close>

definition wrap_int64 :: "int \<Rightarrow> int" where
  "wrap_int64 x = sint (word_of_int x :: 64 word)"

text \<open>
  \<^verbatim>\<open>t + std::chrono::milliseconds(ms)\<close> with \<open>ms\<close> a \<^verbatim>\<open>uint64_t\<close>: the duration's count
  is a signed 64-bit number, so the unsigned value is read back as two's complement;
  the conversion to nanoseconds multiplies it by 1000000, and the sum is taken, both in
  64 bits.
\<close>

definition plus_ms :: "time_point \<Rightarrow> 64 word \<Rightarrow> time_point" where
  "plus_ms t ms = wrap_int64 (t + wrap_int64 (sint ms * 1000000))"

record Timer =
  m_recurring :: bool
  m_ms :: "64 word"
  m_next :: time_point
  m_cb :: callback

text \<open>
  Timers are shared objects: the set, the caller and the callbacks hold handles to the
  same \<^verbatim>\<open>Timer\<close>. \<open>heap\<close> maps each handle to its object and \<open>fresh\<close> is the handle the
  next \<^verbatim>\<open>new Timer\<close> returns. \<open>m_timers\<close> is the \<^verbatim>\<open>std::set\<close> in iteration order.
\<close>

record TimerManager =
  heap :: "handle \<Rightarrow> Timer"
  fresh :: handle
  m_timers :: "handle list"
  m_tickled :: bool
  m_previouseTime :: time_point

text \<open>\<^verbatim>\<open>Timer::Comparator::operator()\<close>: \<^verbatim>\<open>lhs->m_next < rhs->m_next\<close>, nothing else.\<close>

definition Comparator :: "(handle \<Rightarrow> Timer) \<Rightarrow> handle \<Rightarrow> handle \<Rightarrow> bool" where
  "Comparator h lhs rhs = (m_next (h lhs) < m_next (h rhs))"

text \<open>
  \<^verbatim>\<open>std::set::insert\<close> under a comparator: the element goes before the first greater
  one, unless an element that is neither less nor greater is met first; then nothing is
  inserted. The second component is the position of the returned iterator.
\<close>

fun set_insert :: "('a \<Rightarrow> 'a \<Rightarrow> bool) \<Rightarrow> 'a \<Rightarrow> 'a list \<Rightarrow> 'a list \<times> nat" where
  "set_insert lt t [] = ([t], 0)"
| "set_insert lt t (x # xs) =
     (if lt t x then (t # x # xs, 0)
      else if lt x t then (case set_insert lt t xs of (ys, i) \<Rightarrow> (x # ys, Suc i))
      else (x # xs, 0))"

text \<open>
  \<^verbatim>\<open>it = s.find(t); if (it != s.end()) s.erase(it);\<close> under a comparator: \<^verbatim>\<open>find\<close>
  returns the element that is neither less nor greater than \<open>t\<close>.
\<close>

fun set_find_erase :: "('a \<Rightarrow> 'a \<Rightarrow> bool) \<Rightarrow> 'a \<Rightarrow> 'a list \<Rightarrow> 'a list" where
  "set_find_erase lt t [] = []"
| "set_find_erase lt t (x # xs) =
     (if lt t x then x # xs
      else if lt x t then x # set_find_erase lt t xs
      else xs)"

text \<open>\<^verbatim>\<open>TimerManager::TimerManager\<close>.\<close>

definition TimerManager_new :: "time_point \<Rightarrow> TimerManager" where
  "TimerManager_new now =
     \<lparr> heap = (\<lambda>_. \<lparr> m_recurring = False, m_ms = 0, m_next = 0, m_cb = None \<rparr>),
       fresh = 0, m_timers = [], m_tickled = False, m_previouseTime = now \<rparr>"

text \<open>\<^verbatim>\<open>Timer::Timer(ms, cb, recurring, manager)\<close>.\<close>

definition Timer_new :: "time_point \<Rightarrow> 64 word \<Rightarrow> callback \<Rightarrow> bool \<Rightarrow> Timer" where
  "Timer_new now ms cb recurring =
     \<lparr> m_recurring = recurring, m_ms = ms, m_next = plus_ms now ms, m_cb = cb \<rparr>"

text \<open>
  \<^verbatim>\<open>TimerManager::addTimer(std::shared_ptr<Timer>)\<close>. The flag returned says whether
  \<^verbatim>\<open>onTimerInsertedAtFront\<close> was called.
\<close>

definition addTimer_handle :: "handle \<Rightarrow> TimerManager \<Rightarrow> bool \<times> TimerManager" where
  "addTimer_handle timer st =
     (case set_insert (Comparator (heap st)) timer (m_timers st) of
        (ts, pos) \<Rightarrow>
          let at_front = (pos = 0 \<and> \<not> m_tickled st)
          in (at_front,
              st\<lparr> m_timers := ts, m_tickled := (if at_front then True else m_tickled st) \<rparr>))"

text \<open>
  \<^verbatim>\<open>TimerManager::addTimer(ms, cb, recurring)\<close>: the handle of the new timer and the
  manager afterwards.
\<close>

definition addTimer :: "time_point \<Rightarrow> 64 word \<Rightarrow> callback \<Rightarrow> bool \<Rightarrow> TimerManager
    \<Rightarrow> handle \<times> TimerManager" where
  "addTimer now ms cb recurring st =
     (let timer = fresh st;
          st1 = st\<lparr> heap := (heap st)(timer := Timer_new now ms cb recurring),
                    fresh := Suc timer \<rparr>
      in (timer, snd (addTimer_handle timer st1)))"

text \<open>\<^verbatim>\<open>Timer::cancel\<close>.\<close>

definition Timer_cancel :: "handle \<Rightarrow> TimerManager \<Rightarrow> bool \<times> TimerManager" where
  "Timer_cancel this st =
     (if m_cb (heap st this) = None then (False, st)
      else
        let h = (heap st)(this := (heap st this)\<lparr> m_cb := None \<rparr>)
        in (True, st\<lparr> heap := h,
                      m_timers := set_find_erase (Comparator h) this (m_timers st) \<rparr>))"

text \<open>\<^verbatim>\<open>TimerManager::getNextTimer\<close>.\<close>

definition getNextTimer :: "time_point \<Rightarrow> TimerManager \<Rightarrow> 64 word \<times> TimerManager" where
  "getNextTimer now st =
     (let st' = st\<lparr> m_tickled := False \<rparr> in
      case m_timers st of
        [] \<Rightarrow> (NOT 0, st')
      | t # _ \<Rightarrow>
          let time = m_next (heap st t) in
          if now \<ge> time then (0, st')
          else (word_of_int ((time - now) div 1000000), st'))"

text \<open>\<^verbatim>\<open>TimerManager::hasTimer\<close>.\<close>

definition hasTimer :: "TimerManager \<Rightarrow> bool" where
  "hasTimer st = (m_timers st \<noteq> [])"

text \<open>\<^verbatim>\<open>TimerManager::detectClockRollover\<close>; one hour is \<open>60 * 60 * 1000\<close> milliseconds.\<close>

definition detectClockRollover :: "time_point \<Rightarrow> TimerManager \<Rightarrow> bool \<times> TimerManager" where
  "detectClockRollover now st =
     (now < m_previouseTime st - (60 * 60 * 1000) * 1000000,
      st\<lparr> m_previouseTime := now \<rparr>)"

text \<open>
  The \<^verbatim>\<open>while\<close> loop of \<^verbatim>\<open>TimerManager::listExpiredCb\<close>. The state of the loop is the
  manager and the vector \<open>cbs\<close>. The body only runs on a non-empty set (the
  condition says so); \<open>temp\<close> is \<^verbatim>\<open>*m_timers.begin()\<close> and \<open>erased\<close> the set after
  \<^verbatim>\<open>erase(begin())\<close>. The loop may not end, so the result is an option: \<open>None\<close> is a
  loop that runs for ever.
\<close>

definition listExpired_cond :: "time_point \<Rightarrow> bool \<Rightarrow> TimerManager \<Rightarrow> bool" where
  "listExpired_cond now rollover st =
     ((m_timers st \<noteq> [] \<and> rollover)
      \<or> (m_timers st \<noteq> [] \<and> m_next (heap st (hd (m_timers st))) \<le> now))"

definition listExpired_body :: "time_point \<Rightarrow> TimerManager \<times> callback list
    \<Rightarrow> TimerManager \<times> callback list" where
  "listExpired_body now s =
     (case s of (st, cbs) \<Rightarrow>
        (case m_timers st of
           [] \<Rightarrow> (st, cbs)
         | temp # erased \<Rightarrow>
             let cbs' = cbs @ [m_cb (heap st temp)]
             in if m_recurring (heap st temp)
                then
                  let h = (heap st)(temp := (heap st temp)
                             \<lparr> m_next := plus_ms now (m_ms (heap st temp)) \<rparr>)
                  in (st\<lparr> heap := h,
                          m_timers := fst (set_insert (Comparator h) temp erased) \<rparr>, cbs')
                else
                  (st\<lparr> heap := (heap st)(temp := (heap st temp)\<lparr> m_cb := None \<rparr>),
                      m_timers := erased \<rparr>, cbs')))"

partial_function (option) listExpired_loop ::
  "time_point \<Rightarrow> bool \<Rightarrow> TimerManager \<times> callback list \<Rightarrow> (TimerManager \<times> callback list) option"
where
  "listExpired_loop now rollover s =
     (if listExpired_cond now rollover (fst s)
      then listExpired_loop now rollover (listExpired_body now s)
      else Some s)"

text \<open>
  \<^verbatim>\<open>TimerManager::listExpiredCb\<close>. The clock is read twice: \<open>now\<close> at the top of the
  function, \<open>now_rollover\<close> inside \<^verbatim>\<open>detectClockRollover\<close>.
\<close>

definition listExpiredCb :: "time_point \<Rightarrow> time_point \<Rightarrow> TimerManager \<Rightarrow> callback list
    \<Rightarrow> (TimerManager \<times> callback list) option" where
  "listExpiredCb now now_rollover st cbs =
     (case detectClockRollover now_rollover st of
        (rollover, st1) \<Rightarrow> listExpired_loop now rollover (st1, cbs))"

text \<open>
  The invariant of the \<^verbatim>\<open>std::set\<close>: its elements are in strictly increasing order of
  the comparator. Every operation above is applied to a set in this state.
\<close>

definition timers_sorted :: "TimerManager \<Rightarrow> bool" where
  "timers_sorted st = sorted_wrt (Comparator (heap st)) (m_timers st)"

text \<open>
  The clock reading and the deadlines in the set are 64-bit counts, and so is the
  difference \<^verbatim>\<open>time - now\<close> that \<^verbatim>\<open>getNextTimer\<close> computes: no signed overflow.
\<close>

definition clock_ok :: "time_point \<Rightarrow> TimerManager \<Rightarrow> bool" where
  "clock_ok now st =
     (in_int64 now
      \<and> list_all (\<lambda>t. in_int64 (m_next (heap st t)) \<and> in_int64 (m_next (heap st t) - now))
            (m_timers st))"

text \<open>A set that holds exactly one timer, and that timer is recurring.\<close>

definition lone_recurring :: "TimerManager \<Rightarrow> bool" where
  "lone_recurring st = (case m_timers st of [t] \<Rightarrow> m_recurring (heap st t) | _ \<Rightarrow> False)"

text \<open>
  Two timers added to a new manager with the same period, the clock reading \<open>now\<close> both
  times: the two handles and the manager afterwards.
\<close>

definition two_equal_timers :: "time_point \<Rightarrow> 64 word \<Rightarrow> nat \<Rightarrow> nat
    \<Rightarrow> handle \<times> handle \<times> TimerManager" where
  "two_equal_timers now ms k1 k2 =
     (case addTimer now ms (Some k1) False (TimerManager_new now) of
        (t1, st1) \<Rightarrow>
          (case addTimer now ms (Some k2) False st1 of
             (t2, st2) \<Rightarrow> (t1, t2, st2)))"

text \<open>
  Two recurring timers of 30 ms, added to a new manager when the clock read 0 and
  1000 ns: the two handles and the manager afterwards.
\<close>

definition two_recurring_timers :: "handle \<times> handle \<times> TimerManager" where
  "two_recurring_timers =
     (case addTimer 0 30 (Some 1) True (TimerManager_new 0) of
        (t1, st1) \<Rightarrow>
          (case addTimer 1000 30 (Some 2) True st1 of
             (t2, st2) \<Rightarrow> (t1, t2, st2)))"

section \<open>scheduler.h, scheduler.cpp\<close>

record ScheduleTask =
  fiber :: "handle option"
  cb :: callback
  thread :: int

record Scheduler =
  m_tasks :: "ScheduleTask list"
  m_threadIds :: "int list"
  m_threadCount :: "64 word"
  m_activeThreadCount :: "64 word"
  m_idleThreadCount :: "64 word"
  m_useCaller :: bool
  m_schedulerFiber :: "handle option"
  m_rootThread :: int
  m_stopping :: bool

text \<open>\<^verbatim>\<open>Scheduler::stopping\<close>.\<close>

definition Scheduler_stopping :: "Scheduler \<Rightarrow> bool" where
  "Scheduler_stopping s = (m_stopping s \<and> m_tasks s = [] \<and> m_activeThreadCount s = 0)"

section \<open>ioscheduler.h, ioscheduler.cpp\<close>

text \<open>\<^verbatim>\<open>enum Event\<close>; a registered mask is a combination of the bits.\<close>

type_synonym Event = "32 word"

definition NONE :: Event where "NONE = 0"
definition READ :: Event where "READ = 1"
definition WRITE :: Event where "WRITE = 4"

record EventContext =
  scheduler :: "handle option"
  fiber :: "handle option"
  cb :: callback

record FdContext =
  read_ctx :: EventContext
  write_ctx :: EventContext
  fd :: int
  events :: Event

definition EventContext_empty :: EventContext where
  "EventContext_empty = \<lparr> scheduler = None, fiber = None, cb = None \<rparr>"

text \<open>
  The members \<^verbatim>\<open>read\<close> and \<^verbatim>\<open>write\<close> of \<^verbatim>\<open>FdContext\<close> are \<open>read_ctx\<close> and \<open>write_ctx\<close>
  here (\<open>write\<close> is a reserved word).
  \<^verbatim>\<open>new FdContext()\<close> followed by the assignment of \<^verbatim>\<open>fd\<close> in \<^verbatim>\<open>contextResize\<close>.\<close>

definition FdContext_new :: "nat \<Rightarrow> FdContext" where
  "FdContext_new i =
     \<lparr> read_ctx = EventContext_empty, write_ctx = EventContext_empty, fd = int i, events = NONE \<rparr>"

text \<open>
  \<^verbatim>\<open>IOManager\<close> derives from \<^verbatim>\<open>Scheduler\<close> and \<^verbatim>\<open>TimerManager\<close>; the two bases are
  the first two fields.
\<close>

record IOManager =
  base_Scheduler :: Scheduler
  base_TimerManager :: TimerManager
  m_pendingEventCount :: "64 word"
  m_fdContexts :: "FdContext option list"

text \<open>
  \<^verbatim>\<open>FdContext::getEventContext\<close>, as a reader and as a writer of the slot it refers to.
  The \<^verbatim>\<open>assert\<close> is the first statement.
\<close>

definition getEventContext :: "Event \<Rightarrow> FdContext \<Rightarrow> error + EventContext" where
  "getEventContext event c =
     (if \<not> (event = READ \<or> event = WRITE) then Inl AssertionFailed
      else if event = READ then Inr (read_ctx c)
      else Inr (write_ctx c))"

definition setEventContext :: "Event \<Rightarrow> EventContext \<Rightarrow> FdContext \<Rightarrow> FdContext" where
  "setEventContext event e c = (if event = READ then c\<lparr> read_ctx := e \<rparr> else c\<lparr> write_ctx := e \<rparr>)"


text \<open>\<^verbatim>\<open>IOManager::contextResize\<close>.\<close>

definition contextResize :: "nat \<Rightarrow> FdContext option list \<Rightarrow> FdContext option list" where
  "contextResize n cs =
     map (\<lambda>(i, c). if c = None then Some (FdContext_new i) else c)
       (zip [0 ..< n] (resize n cs))"

text \<open>
  \<^verbatim>\<open>IOManager::addEvent\<close>. \<open>epoll_rt\<close> is what \<^verbatim>\<open>epoll_ctl\<close> returns, \<open>this_scheduler\<close>
  is \<^verbatim>\<open>Scheduler::GetThis()\<close>, \<open>this_fiber\<close> and \<open>this_state\<close> are
  \<^verbatim>\<open>Fiber::GetThis()\<close> and its state. The test \<^verbatim>\<open>(int)m_fdContexts.size() > fd\<close> is a
  signed comparison, so a negative \<open>fd\<close> indexes the vector out of range.
\<close>

definition addEvent ::
  "int \<Rightarrow> handle option \<Rightarrow> handle \<Rightarrow> State \<Rightarrow> int \<Rightarrow> Event \<Rightarrow> callback \<Rightarrow> IOManager
     \<Rightarrow> error + (int \<times> IOManager)" where
  "addEvent epoll_rt this_scheduler this_fiber this_state fd' event cb' io =
     (case (if int (length (m_fdContexts io)) > fd' then Inr (m_fdContexts io)
            else (case times_1_5 fd' of
                    Inl e \<Rightarrow> Inl e
                  | Inr n \<Rightarrow> Inr (contextResize n (m_fdContexts io)))) of
        Inl e \<Rightarrow> Inl e
      | Inr cs \<Rightarrow>
          if fd' < 0 \<or> length cs \<le> nat fd' then Inl IndexOutOfRange
          else
            (case cs ! nat fd' of
               None \<Rightarrow> Inl NullDereference
             | Some fd_ctx \<Rightarrow>
                 let io1 = io\<lparr> m_fdContexts := cs \<rparr> in
                 if events fd_ctx AND event \<noteq> 0 then Inr (- 1, io1)
                 else if epoll_rt \<noteq> 0 then Inr (- 1, io1)
                 else
                   (case getEventContext event fd_ctx of
                      Inl e \<Rightarrow> Inl e
                    | Inr event_ctx \<Rightarrow>
                        if \<not> (scheduler event_ctx = None \<and> fiber event_ctx = None
                                \<and> cb event_ctx = None)
                          then Inl AssertionFailed
                        else if cb' = None \<and> this_state \<noteq> RUNNING then Inl AssertionFailed
                        else
                          let e1 = event_ctx\<lparr> scheduler := this_scheduler \<rparr>;
                              e2 = (if cb' \<noteq> None then e1\<lparr> cb := cb' \<rparr>
                                    else e1\<lparr> fiber := Some this_fiber \<rparr>);
                              c1 = setEventContext event e2
                                     (fd_ctx\<lparr> events := events fd_ctx OR event \<rparr>)
                          in Inr (0, io1\<lparr> m_pendingEventCount := m_pendingEventCount io1 + 1,
                                            m_fdContexts := cs[nat fd' := Some c1] \<rparr>))))"


text \<open>
  \<^verbatim>\<open>IOManager::stopping\<close>. \<^verbatim>\<open>getNextTimer\<close> writes \<^verbatim>\<open>m_tickled\<close>, so the manager is
  returned as well.
\<close>

definition IOManager_stopping :: "time_point \<Rightarrow> IOManager \<Rightarrow> bool \<times> IOManager" where
  "IOManager_stopping now io =
     (case getNextTimer now (base_TimerManager io) of
        (timeout, tm) \<Rightarrow>
          (timeout = NOT 0 \<and> m_pendingEventCount io = 0 \<and> Scheduler_stopping (base_Scheduler io),
           io\<lparr> base_TimerManager := tm \<rparr>))"

section \<open>hook.cpp\<close>

record timer_info =
  cancelled :: int

text \<open>
  \<^verbatim>\<open>do_io\<close> runs on a fiber and talks to its surroundings: the raw function, the
  reactor, the timer it arms, and the scheduler that resumes it after \<^verbatim>\<open>yield\<close>. The
  model records each call in order and reads what the surroundings answer from a script;
  a script that ends before \<^verbatim>\<open>do_io\<close> returns gives \<open>None\<close>.
\<close>

datatype call =
    Call_fun
  | Call_addConditionTimer "64 word"
  | Call_addEvent int Event
  | Call_cancelEvent int Event
  | Call_Timer_cancel
  | Call_yield

text \<open>
  \<open>Raw n e\<close>: the raw function returned \<open>n\<close> and left \<open>e\<close> in \<^verbatim>\<open>errno\<close>.
  \<open>AddEvent_rt rt e\<close>: \<^verbatim>\<open>addEvent\<close> returned \<open>rt\<close>, with \<open>e\<close> in \<^verbatim>\<open>errno\<close>.
  \<open>Resumed fired\<close>: the fiber was resumed after its \<^verbatim>\<open>yield\<close>; \<open>fired\<close> says whether
  the callback of the armed timer ran while it was suspended.
\<close>

datatype answer =
    Raw int int
  | AddEvent_rt int int
  | Resumed bool

text \<open>
  The lambda that \<^verbatim>\<open>do_io\<close> gives to \<^verbatim>\<open>addConditionTimer\<close>. Its first argument is
  what \<^verbatim>\<open>winfo.lock()\<close> returns, its result the witness afterwards and the calls made.
\<close>

definition timeout_cb :: "int \<Rightarrow> Event \<Rightarrow> timer_info option \<Rightarrow> timer_info option \<times> call list" where
  "timeout_cb fd' event t =
     (case t of
        None \<Rightarrow> (None, [])
      | Some ti \<Rightarrow>
          if cancelled ti \<noteq> 0 then (Some ti, [])
          else (Some (ti\<lparr> cancelled := ETIMEDOUT \<rparr>), [Call_cancelEvent fd' event]))"

text \<open>\<^verbatim>\<open>OnTimer\<close> of timer.cpp, the wrapper that \<^verbatim>\<open>addConditionTimer\<close> binds.\<close>

definition OnTimer :: "'w option \<Rightarrow> ('w option \<Rightarrow> 'w option \<times> call list)
    \<Rightarrow> 'w option \<times> call list" where
  "OnTimer weak_cond cb' = (case weak_cond of None \<Rightarrow> (None, []) | Some tmp \<Rightarrow> cb' weak_cond)"

text \<open>
  \<^verbatim>\<open>do_io\<close> from the label \<^verbatim>\<open>retry\<close> on. The inner \<^verbatim>\<open>while\<close> on \<^verbatim>\<open>EINTR\<close> and the
  \<^verbatim>\<open>goto retry\<close> both call the raw function again. While the fiber is suspended
  \<^verbatim>\<open>do_io\<close> holds \<^verbatim>\<open>tinfo\<close>, so the witness the timer locks is alive. The result is the
  returned value with \<^verbatim>\<open>errno\<close>, and the calls made.
\<close>

fun do_io_retry :: "int \<Rightarrow> Event \<Rightarrow> 64 word \<Rightarrow> timer_info \<Rightarrow> answer list \<Rightarrow> call list
    \<Rightarrow> ((int \<times> int) \<times> call list) option" where
  "do_io_retry fd' event timeout tinfo (Raw n e # rest) tr =
     (if n = - 1 \<and> e = EINTR
        then do_io_retry fd' event timeout tinfo rest (tr @ [Call_fun])
      else if n = - 1 \<and> e = EAGAIN then
        (let armed = (timeout \<noteq> NOT 0);
             tr1 = tr @ [Call_fun]
                   @ (if armed then [Call_addConditionTimer timeout] else [])
                   @ [Call_addEvent fd' event]
         in case rest of
              AddEvent_rt rt e' # rest1 \<Rightarrow>
                if rt \<noteq> 0
                  then Some ((- 1, e'), tr1 @ (if armed then [Call_Timer_cancel] else []))
                else
                  (case rest1 of
                     Resumed fired # rest2 \<Rightarrow>
                       (case (if armed \<and> fired
                              then OnTimer (Some tinfo) (timeout_cb fd' event)
                              else (Some tinfo, [])) of
                          (t', calls) \<Rightarrow>
                            let tinfo' = (case t' of Some x \<Rightarrow> x | None \<Rightarrow> tinfo);
                                tr2 = tr1 @ [Call_yield] @ calls
                                      @ (if armed then [Call_Timer_cancel] else [])
                            in if cancelled tinfo' = ETIMEDOUT
                                 then Some ((- 1, ETIMEDOUT), tr2)
                               else do_io_retry fd' event timeout tinfo' rest2 tr2)
                   | _ \<Rightarrow> None)
            | _ \<Rightarrow> None)
      else Some ((n, e), tr @ [Call_fun]))"
| "do_io_retry fd' event timeout tinfo _ tr = None"

text \<open>The paths of \<^verbatim>\<open>do_io\<close> that only forward to the raw function.\<close>

definition raw_only :: "answer list \<Rightarrow> ((int \<times> int) \<times> call list) option" where
  "raw_only answers = (case answers of Raw n e # _ \<Rightarrow> Some ((n, e), [Call_fun]) | _ \<Rightarrow> None)"

text \<open>
  \<^verbatim>\<open>do_io\<close>. \<open>t_hook_enable\<close> is the thread-local switch, \<open>mgr\<close> the \<^verbatim>\<open>FdMgr\<close>
  singleton; \<^verbatim>\<open>get(fd)\<close> is called with \<^verbatim>\<open>auto_create = false\<close>.
\<close>

definition do_io :: "bool \<Rightarrow> FdManager \<Rightarrow> int \<Rightarrow> Event \<Rightarrow> int \<Rightarrow> answer list
    \<Rightarrow> ((int \<times> int) \<times> call list) option" where
  "do_io t_hook_enable mgr fd' event timeout_so answers =
     (if \<not> t_hook_enable then raw_only answers
      else
        (case returned_handle (FdManager_get None fd' False mgr) of
           None \<Rightarrow> raw_only answers
         | Some ctx \<Rightarrow>
             if m_isClosed ctx then Some ((- 1, EBADF), [])
             else if \<not> m_isSocket ctx \<or> m_userNonblock ctx then raw_only answers
             else do_io_retry fd' event (FdCtx_getTimeout timeout_so ctx)
                    \<lparr> cancelled = 0 \<rparr> answers []))"

section \<open>Sample states\<close>

text \<open>A manager with one one-shot timer of 5 ms, added when the clock read 0.\<close>

definition sample_timers :: TimerManager where
  "sample_timers = snd (addTimer 0 5 (Some 1) False (TimerManager_new 0))"

text \<open>A scheduler that was told to stop, with no task and no active thread.\<close>

definition sample_scheduler :: Scheduler where
  "sample_scheduler =
     \<lparr> m_tasks = [], m_threadIds = [1], m_threadCount = 0, m_activeThreadCount = 0,
       m_idleThreadCount = 0, m_useCaller = True, m_schedulerFiber = Some 0,
       m_rootThread = 1, m_stopping = True \<rparr>"

text \<open>
  A reactor over that scheduler, with no timer and no pending event, and the 32
  contexts its constructor creates.
\<close>

definition sample_reactor :: IOManager where
  "sample_reactor =
     \<lparr> base_Scheduler = sample_scheduler, base_TimerManager = TimerManager_new 0,
       m_pendingEventCount = 0, m_fdContexts = contextResize 32 [] \<rparr>"

text \<open>The same reactor with a callback registered for \<open>READ\<close> on descriptor 3.\<close>

definition sample_reactor_reading :: IOManager where
  "sample_reactor_reading =
     sample_reactor
       \<lparr> m_pendingEventCount := 1,
         m_fdContexts := (m_fdContexts sample_reactor)
           [3 := Some ((FdContext_new 3)
                   \<lparr> read_ctx := \<lparr> scheduler = Some 0, fiber = None, cb = Some 9 \<rparr>,
                     events := READ \<rparr>)] \<rparr>"

text \<open>
  A registry in which descriptor 5 is a socket with a receive timeout of 50 ms.
\<close>

definition sample_registry :: FdManager where
  "sample_registry =
     \<lparr> m_datas = (m_datas FdManager_new)
         [5 := Some ((FdCtx_new (Some True) 5)\<lparr> m_recvTimeout := 50 \<rparr>)] \<rparr>"






section \<open>Results: descriptor registry\<close>

lemma length_resize: "length (resize n xs) = n"
  by (simp add: resize_def)

lemma to_size_t_nonneg: "0 \<le> fdn \<Longrightarrow> fdn < 2 ^ 31 \<Longrightarrow> to_size_t fdn = fdn"
  by (simp add: to_size_t_def)

text \<open>The array never falls below the 64 slots it starts with.\<close>

lemma get_keeps_initial_capacity:
  assumes "64 \<le> length (m_datas s)" and "FdManager_get a fdn ac s = Inr (r, s')"
  shows "64 \<le> length (m_datas s')"
proof (cases "int (length (m_datas s)) \<le> to_size_t fdn")
  case False
  then show ?thesis using assms
    by (auto simp: FdManager_get_def Let_def split: if_splits)
next
  case True
  show ?thesis
  proof (cases "fdn < 0")
    case True
    then show ?thesis using assms
      by (auto simp: FdManager_get_def Let_def times_1_5_def split: if_splits)
  next
    case False
    then have "to_size_t fdn \<le> fdn" by (simp add: to_size_t_def zmod_le_nonneg_dividend)
    with True assms(1) have "64 \<le> fdn" by linarith
    then have "64 \<le> nat (3 * fdn div 2)" by linarith
    then show ?thesis using assms True False
      by (auto simp: FdManager_get_def Let_def times_1_5_def length_resize split: if_splits)
  qed
qed

text \<open>
  C10. \<^verbatim>\<open>FdManager::get\<close> with \<open>fd = -1\<close> returns the null handle whatever
  \<open>auto_create\<close> is, and the context array is the one it was given.
\<close>

theorem get_minus_one_null:
  "FdManager_get fstat_answer (- 1) auto_create s = Inr (None, s)"
  by (simp add: FdManager_get_def)

theorem get_minus_one_null_witness:
  "FdManager_get None (- 1) True sample_registry = Inr (None, sample_registry)
   \<and> FdManager_get None (- 1) False sample_registry = Inr (None, sample_registry)"
  using get_minus_one_null [where auto_create = True and s = sample_registry]
    get_minus_one_null [where auto_create = False and s = sample_registry]
  by simp

text \<open>
  C8, as the claim states it, fails: the array is grown to \<open>fd * 1.5\<close> with the fraction
  dropped, not rounded up. With 64 slots and \<open>fd = 65\<close> the new size is 97, and the
  ceiling of 97.5 is 98.
\<close>

theorem get_growth_not_ceiling:
  "capacity_after (FdManager_get None 65 True FdManager_new) = Some 97
   \<and> capacity_after (FdManager_get None 65 True FdManager_new) \<noteq> Some (spec_ceil_1_5 65)"
  by (simp add: FdManager_get_def FdManager_new_def times_1_5_def to_size_t_def
      length_resize Let_def capacity_after_def spec_ceil_1_5_def)

text \<open>
  The model of \<open>get\<close> with the lock returns what the model without it returns, and on
  every path it changes the vector only while the lock is held for writing.
\<close>

lemma get_locked_result:
  "snd (FdManager_get_locked a fdn ac s) = FdManager_get a fdn ac s"
  by (auto simp: FdManager_get_locked_def FdManager_get_def Let_def
      split: sum.splits prod.splits)

lemma get_writes_locked:
  "writes_locked Unlocked (fst (FdManager_get_locked a fdn ac s))"
  by (auto simp: FdManager_get_locked_def Let_def times_1_5_def
      split: sum.splits prod.splits)

text \<open>
  C8, amended. The array starts with 64 slots. For a descriptor \<open>fd\<close> at or beyond the
  current size, \<open>get\<close> with \<open>auto_create\<close> grows the array to \<open>3 * fd div 2\<close> slots
  (\<open>fd * 1.5\<close>, fraction dropped) under the write lock, then stores the newly created
  context at index \<open>fd\<close>, still under the write lock, and returns it; the new size is
  strictly greater than \<open>fd\<close>. The descriptor is an \<^verbatim>\<open>int\<close>, and the array has at least
  the 64 slots it starts with.
\<close>

theorem get_grows_truncated:
  assumes "64 \<le> length (m_datas s)"
    and "int (length (m_datas s)) \<le> fdn"
    and "fdn < 2 ^ 31"
  shows "length (m_datas FdManager_new) = 64
    \<and> (\<exists>s'. FdManager_get fstat_answer fdn True s = Inr (Some (FdCtx_new fstat_answer fdn), s')
          \<and> length (m_datas s') = nat (3 * fdn div 2)
          \<and> nat fdn < length (m_datas s')
          \<and> m_datas s' ! nat fdn = Some (FdCtx_new fstat_answer fdn)
          \<and> (\<forall>i < length (m_datas s). m_datas s' ! i = m_datas s ! i))
    \<and> FdManager_get_locked fstat_answer fdn True s
        = ([Read_lock, Read_unlock, Write_lock, Vector_resize (nat (3 * fdn div 2)),
            Vector_store (nat fdn), Write_unlock],
           FdManager_get fstat_answer fdn True s)
    \<and> writes_locked Unlocked (fst (FdManager_get_locked fstat_answer fdn True s))"
proof -
  have fd_pos: "64 \<le> fdn" using assms(1,2) by linarith
  have sz: "to_size_t fdn = fdn" using fd_pos assms(3) by (simp add: to_size_t_nonneg)
  have grow: "times_1_5 fdn = Inr (nat (3 * fdn div 2))"
    using fd_pos by (simp add: times_1_5_def)
  have room: "nat fdn < nat (3 * fdn div 2)" using fd_pos by linarith
  have old: "length (m_datas s) \<le> nat fdn" using assms(2) by linarith
  have keep: "\<forall>i < length (m_datas s).
      (resize (nat (3 * fdn div 2)) (m_datas s))[nat fdn := Some (FdCtx_new fstat_answer fdn)] ! i
        = m_datas s ! i"
    using old room by (auto simp: resize_def nth_append)
  have plain: "\<exists>s'. FdManager_get fstat_answer fdn True s
            = Inr (Some (FdCtx_new fstat_answer fdn), s')
          \<and> length (m_datas s') = nat (3 * fdn div 2)
          \<and> nat fdn < length (m_datas s')
          \<and> m_datas s' ! nat fdn = Some (FdCtx_new fstat_answer fdn)
          \<and> (\<forall>i < length (m_datas s). m_datas s' ! i = m_datas s ! i)"
    using fd_pos sz grow room keep assms(2)
    by (simp add: FdManager_get_def length_resize Let_def)
  have ops: "fst (FdManager_get_locked fstat_answer fdn True s)
        = [Read_lock, Read_unlock, Write_lock, Vector_resize (nat (3 * fdn div 2)),
            Vector_store (nat fdn), Write_unlock]"
    using fd_pos sz grow room assms(2)
    by (simp add: FdManager_get_locked_def length_resize Let_def)
  have locked: "FdManager_get_locked fstat_answer fdn True s
        = ([Read_lock, Read_unlock, Write_lock, Vector_resize (nat (3 * fdn div 2)),
            Vector_store (nat fdn), Write_unlock],
           FdManager_get fstat_answer fdn True s)"
    using ops get_locked_result[of fstat_answer fdn True s]
    by (cases "FdManager_get_locked fstat_answer fdn True s") simp
  have init: "length (m_datas FdManager_new) = 64" by (simp add: FdManager_new_def)
  show ?thesis
    using init plain locked get_writes_locked[of fstat_answer fdn True s] by blast
qed

theorem get_grows_truncated_witness:
  "64 \<le> length (m_datas FdManager_new)
   \<and> int (length (m_datas FdManager_new)) \<le> 65 \<and> (65 :: int) < 2 ^ 31
   \<and> length (m_datas FdManager_new) = 64
   \<and> capacity_after (FdManager_get None 65 True FdManager_new) = Some 97
   \<and> returned_handle (FdManager_get None 65 True FdManager_new) = Some (FdCtx_new None 65)
   \<and> fst (FdManager_get_locked None 65 True FdManager_new)
       = [Read_lock, Read_unlock, Write_lock, Vector_resize 97, Vector_store 65, Write_unlock]"
  using get_grows_truncated [where s = FdManager_new and fdn = 65 and fstat_answer = None]
  by (auto simp: FdManager_new_def capacity_after_def returned_handle_def)

section \<open>Results: fibers\<close>

text \<open>
  C9, as the claim states it, fails: a fiber built with stack size 0 gets 128000 bytes,
  which is not 131072.
\<close>

theorem default_stack_not_131072:
  "m_stack (Fiber_new 1 (Some 1) 0 True) \<noteq> Some 131072"
  by (simp add: Fiber_new_def)

text \<open>
  C9, amended. A fiber constructed with stack size 0 (the default argument) records a
  stack size of 128000 bytes and asks the allocator for a region of 128000 bytes.
\<close>

theorem default_stack_128000:
  "m_stacksize (Fiber_new fid k 0 run_in_scheduler) = 128000
   \<and> m_stack (Fiber_new fid k 0 run_in_scheduler) = Some 128000"
  by (simp add: Fiber_new_def)

section \<open>Results: timers\<close>

text \<open>
  A period whose nanosecond count does not fit 64 bits gives a deadline before the
  clock reading.
\<close>

lemma plus_ms_wraps: "plus_ms 0 9223372036855 = - 9223372036854551616"
  by (simp add: plus_ms_def wrap_int64_def)

lemma head_is_Min:
  assumes "sorted_wrt (\<lambda>a b. key a < key b) (x # xs)"
  shows "Min (key ` set (x # xs)) = (key x :: int)"
proof (rule Min_eqI)
  show "finite (key ` set (x # xs))" by simp
  show "key x \<in> key ` set (x # xs)" by simp
  fix y assume "y \<in> key ` set (x # xs)"
  then show "key x \<le> y" using assms by auto
qed

lemma ms_word_range:
  assumes "0 \<le> d" "d < 2 ^ 64"
  shows "uint (word_of_int (d div 1000000) :: 64 word) = d div 1000000"
proof -
  have "0 \<le> d div 1000000" using assms(1) by simp
  moreover have "d div 1000000 \<le> d" using assms(1) by linarith
  ultimately show ?thesis using assms(2) by (simp add: uint_word_of_int take_bit_int_eq_self)
qed

lemma getNextTimer_sentinel_iff:
  assumes "clock_ok now st"
  shows "fst (getNextTimer now st) = NOT 0 \<longleftrightarrow> m_timers st = []"
proof (cases "m_timers st")
  case Nil
  then show ?thesis by (simp add: getNextTimer_def)
next
  case (Cons x xs)
  have rng: "in_int64 (m_next (heap st x) - now)"
    using assms Cons by (simp add: clock_ok_def)
  have "(word_of_int ((m_next (heap st x) - now) div 1000000) :: 64 word) \<noteq> - 1"
    if lt: "now < m_next (heap st x)"
  proof
    assume eq: "(word_of_int ((m_next (heap st x) - now) div 1000000) :: 64 word) = - 1"
    have "uint (word_of_int ((m_next (heap st x) - now) div 1000000) :: 64 word)
        = (m_next (heap st x) - now) div 1000000"
      using rng lt by (intro ms_word_range) (auto simp: in_int64_def)
    with eq have "(m_next (heap st x) - now) div 1000000 = 2 ^ 64 - 1"
      by (simp add: unsigned_minus_1_eq_mask mask_eq_exp_minus_1)
    moreover have "m_next (heap st x) - now < 2 ^ 64"
      using rng by (simp add: in_int64_def)
    ultimately show False by simp
  qed
  then show ?thesis using Cons by (auto simp: getNextTimer_def Let_def)
qed

text \<open>
  The order of the set is kept by every operation of the model: the new manager is in
  order, and \<^verbatim>\<open>addTimer\<close>, \<^verbatim>\<open>Timer::cancel\<close> and a round of \<^verbatim>\<open>listExpiredCb\<close> keep
  it so.
\<close>

lemma set_insert_subset: "set (fst (set_insert lt t xs)) \<subseteq> insert t (set xs)"
  by (induction xs) (auto split: prod.splits)

lemma set_insert_sorted:
  assumes "sorted_wrt (\<lambda>a b. key a < (key b :: int)) xs"
  shows "sorted_wrt (\<lambda>a b. key a < key b) (fst (set_insert (\<lambda>a b. key a < key b) t xs))"
  using assms
proof (induction xs)
  case Nil
  then show ?case by simp
next
  case (Cons x xs)
  show ?case
  proof (cases "key t < key x")
    case True
    with Cons.prems show ?thesis by (auto intro: less_trans)
  next
    case False
    show ?thesis
    proof (cases "key x < key t")
      case True
      have sub: "set (fst (set_insert (\<lambda>a b. key a < key b) t xs)) \<subseteq> insert t (set xs)"
        by (rule set_insert_subset)
      from Cons have "sorted_wrt (\<lambda>a b. key a < key b) (fst (set_insert (\<lambda>a b. key a < key b) t xs))"
        by simp
      with True False Cons.prems sub show ?thesis
        by (auto split: prod.splits)
    next
      case False
      with \<open>\<not> key t < key x\<close> Cons.prems show ?thesis by simp
    qed
  qed
qed

lemma sorted_wrt_members:
  "(\<And>a b. a \<in> set xs \<Longrightarrow> b \<in> set xs \<Longrightarrow> P a b = Q a b)
     \<Longrightarrow> sorted_wrt P xs = sorted_wrt Q xs"
  by (induction xs) auto

lemma addTimer_keeps_sorted:
  assumes "timers_sorted st" and "fresh st \<notin> set (m_timers st)"
  shows "timers_sorted (snd (addTimer now ms k r st))"
proof -
  let ?h = "(heap st)(fresh st := Timer_new now ms k r)"
  have same: "sorted_wrt (\<lambda>a b. m_next (?h a) < m_next (?h b)) (m_timers st)"
  proof -
    have "sorted_wrt (\<lambda>a b. m_next (heap st a) < m_next (heap st b)) (m_timers st)"
      using assms(1) by (simp add: timers_sorted_def Comparator_def[abs_def])
    moreover have "sorted_wrt (\<lambda>a b. m_next (?h a) < m_next (?h b)) (m_timers st)
        = sorted_wrt (\<lambda>a b. m_next (heap st a) < m_next (heap st b)) (m_timers st)"
      using assms(2) by (intro sorted_wrt_members) auto
    ultimately show ?thesis by simp
  qed
  have ins: "sorted_wrt (Comparator ?h)
      (fst (set_insert (Comparator ?h) (fresh st) (m_timers st)))"
    unfolding Comparator_def[abs_def] by (rule set_insert_sorted[OF same])
  have after: "heap (snd (addTimer now ms k r st)) = ?h"
    "m_timers (snd (addTimer now ms k r st))
       = fst (set_insert (Comparator ?h) (fresh st) (m_timers st))"
    by (simp_all add: addTimer_def addTimer_handle_def Let_def split: prod.splits)
  show ?thesis
    unfolding timers_sorted_def after by (rule ins)
qed

lemma TimerManager_new_sorted: "timers_sorted (TimerManager_new now)"
  by (simp add: timers_sorted_def TimerManager_new_def)

lemma set_find_erase_sorted:
  "sorted_wrt P xs \<Longrightarrow> sorted_wrt P (set_find_erase lt t xs)"
proof (induction xs)
  case Nil
  then show ?case by simp
next
  case (Cons x xs)
  have sub: "set (set_find_erase lt t xs) \<subseteq> set xs" for xs
    by (induction xs) auto
  from Cons sub[of xs] show ?case by auto
qed

lemma Timer_cancel_keeps_sorted:
  assumes "timers_sorted st"
  shows "timers_sorted (snd (Timer_cancel t st))"
proof (cases "m_cb (heap st t) = None")
  case True
  then show ?thesis using assms by (simp add: Timer_cancel_def)
next
  case False
  let ?h = "(heap st)(t := (heap st t)\<lparr> m_cb := None \<rparr>)"
  have keys: "Comparator ?h = Comparator (heap st)"
    by (auto simp: Comparator_def fun_eq_iff)
  have "sorted_wrt (Comparator (heap st))
      (set_find_erase (Comparator (heap st)) t (m_timers st))"
    using assms unfolding timers_sorted_def by (rule set_find_erase_sorted)
  then show ?thesis using False
    by (auto simp: Timer_cancel_def Let_def timers_sorted_def keys)
qed

lemma listExpired_body_keeps_sorted:
  assumes "timers_sorted (fst s)"
  shows "timers_sorted (fst (listExpired_body now s))"
proof (cases s)
  case (Pair st ks)
  show ?thesis
  proof (cases "m_timers st")
    case Nil
    then show ?thesis using assms Pair by (simp add: listExpired_body_def)
  next
    case (Cons temp erased)
    have whole: "sorted_wrt (\<lambda>a b. m_next (heap st a) < m_next (heap st b)) (temp # erased)"
      using assms Pair Cons by (simp add: timers_sorted_def Comparator_def[abs_def])
    then have rest: "sorted_wrt (\<lambda>a b. m_next (heap st a) < m_next (heap st b)) erased"
      and apart: "temp \<notin> set erased"
      by auto
    show ?thesis
    proof (cases "m_recurring (heap st temp)")
      case False
      let ?h = "(heap st)(temp := (heap st temp)\<lparr> m_cb := None \<rparr>)"
      have keys: "Comparator ?h = Comparator (heap st)"
        by (auto simp: Comparator_def fun_eq_iff)
      have "sorted_wrt (Comparator (heap st)) erased"
        using rest by (simp add: Comparator_def[abs_def])
      then show ?thesis using Pair Cons False
        by (simp add: listExpired_body_def Let_def timers_sorted_def keys)
    next
      case True
      let ?h = "(heap st)(temp := (heap st temp)\<lparr> m_next := plus_ms now (m_ms (heap st temp)) \<rparr>)"
      have "sorted_wrt (\<lambda>a b. m_next (?h a) < m_next (?h b)) erased
          = sorted_wrt (\<lambda>a b. m_next (heap st a) < m_next (heap st b)) erased"
        using apart by (intro sorted_wrt_members) auto
      with rest have same: "sorted_wrt (\<lambda>a b. m_next (?h a) < m_next (?h b)) erased" by simp
      have ins: "sorted_wrt (Comparator ?h) (fst (set_insert (Comparator ?h) temp erased))"
        unfolding Comparator_def[abs_def] by (rule set_insert_sorted[OF same])
      have after: "heap (fst (listExpired_body now s)) = ?h"
        "m_timers (fst (listExpired_body now s)) = fst (set_insert (Comparator ?h) temp erased)"
        using Pair Cons True by (simp_all add: listExpired_body_def Let_def)
      show ?thesis unfolding timers_sorted_def after by (rule ins)
    qed
  qed
qed

text \<open>
  Two recurring timers of the same period that expire in the same round of
  \<^verbatim>\<open>listExpiredCb\<close> are both given the deadline \<open>now + period\<close>; the second is not put
  back into the set, although it keeps its callback.
\<close>

lemma recurring_pair_loses_one:
  "(case two_recurring_timers of
      (t1, t2, st) \<Rightarrow>
        (case listExpiredCb 40000000 40000000 st [] of
           None \<Rightarrow> False
         | Some (st', ks) \<Rightarrow>
             ks = [Some 1, Some 2]
           \<and> m_timers st' = [t1]
           \<and> m_cb (heap st' t2) = Some 2
           \<and> m_next (heap st' t1) = 70000000
           \<and> m_next (heap st' t2) = 70000000))"
  apply (simp add: two_recurring_timers_def listExpiredCb_def detectClockRollover_def
      addTimer_def TimerManager_new_def addTimer_handle_def Let_def Timer_new_def Comparator_def
      plus_ms_def wrap_int64_def)
  apply (subst listExpired_loop.simps)
  apply (simp add: listExpired_cond_def listExpired_body_def Let_def Comparator_def plus_ms_def wrap_int64_def)
  apply (subst listExpired_loop.simps)
  apply (simp add: listExpired_cond_def listExpired_body_def Let_def Comparator_def plus_ms_def wrap_int64_def)
  apply (subst listExpired_loop.simps)
  apply (simp add: listExpired_cond_def listExpired_body_def Let_def Comparator_def plus_ms_def wrap_int64_def)
  done

text \<open>
  C1. The code does not do what the claim says. The comparator looks at the deadline
  only, so a timer whose deadline equals that of a member is not inserted. Two timers
  added at the same clock reading with the same period get two handles, both keep their
  callback and both have the same deadline, yet the set holds the first one only; and
  cancelling the second, which \<^verbatim>\<open>find\<close> cannot tell from the first, takes the first
  out of the set with its callback still in place.
\<close>

theorem equal_deadline_timer_dropped:
  "(case two_equal_timers now ms k1 k2 of
      (t1, t2, st) \<Rightarrow>
        t1 \<noteq> t2
      \<and> m_cb (heap st t1) = Some k1 \<and> m_cb (heap st t2) = Some k2
      \<and> m_next (heap st t1) = m_next (heap st t2)
      \<and> m_timers st = [t1]
      \<and> fst (Timer_cancel t2 st) = True
      \<and> m_timers (snd (Timer_cancel t2 st)) = []
      \<and> m_cb (heap (snd (Timer_cancel t2 st)) t1) = Some k1)"
  by (simp add: two_equal_timers_def addTimer_def TimerManager_new_def addTimer_handle_def
      Let_def Timer_new_def Comparator_def Timer_cancel_def)

lemma lone_recurring_body:
  "lone_recurring (fst s) \<Longrightarrow> lone_recurring (fst (listExpired_body now s))"
  by (cases s) (auto simp: lone_recurring_def listExpired_body_def Let_def split: list.splits)

lemma lone_recurring_cond: "lone_recurring st \<Longrightarrow> listExpired_cond now True st"
  by (auto simp: lone_recurring_def listExpired_cond_def split: list.splits)

lemma loop_returns_not_lone:
  "listExpired_loop now rollover s = Some r \<Longrightarrow> rollover \<longrightarrow> \<not> lone_recurring (fst s)"
proof (rule listExpired_loop.raw_induct
    [where P = "\<lambda>now rollover s r. rollover \<longrightarrow> \<not> lone_recurring (fst s)"])
  fix loop :: "time_point \<Rightarrow> bool \<Rightarrow> TimerManager \<times> callback list
      \<Rightarrow> (TimerManager \<times> callback list) option"
  fix now rollover s r
  assume IH: "\<And>now rollover s r. loop now rollover s = Some r
      \<Longrightarrow> rollover \<longrightarrow> \<not> lone_recurring (fst s)"
  assume step: "(if listExpired_cond now rollover (fst s)
      then loop now rollover (listExpired_body now s) else Some s) = Some r"
  show "rollover \<longrightarrow> \<not> lone_recurring (fst s)"
  proof (intro impI notI)
    assume r: rollover and inv: "lone_recurring (fst s)"
    from r inv have "listExpired_cond now rollover (fst s)"
      by (simp add: lone_recurring_cond)
    with step have "loop now rollover (listExpired_body now s) = Some r" by simp
    from IH[OF this] r lone_recurring_body[OF inv] show False by simp
  qed
qed

lemma loop_never_returns:
  "lone_recurring (fst s) \<Longrightarrow> listExpired_loop now True s = None"
  using loop_returns_not_lone[of now True s]
  by (cases "listExpired_loop now True s") auto

text \<open>
  On a set with one expired one-shot timer and no rollover, \<^verbatim>\<open>listExpiredCb\<close> returns:
  the callback is in the vector, the timer is out of the set and has lost its callback.
\<close>

lemma listExpiredCb_one_shot_returns:
  "listExpiredCb 5000000 5000000 sample_timers []
     = Some (sample_timers
               \<lparr> heap := (heap sample_timers)(0 := (heap sample_timers 0)\<lparr> m_cb := None \<rparr>),
                 m_timers := [], m_previouseTime := 5000000 \<rparr>, [Some 1])"
  apply (simp add: listExpiredCb_def detectClockRollover_def)
  apply (subst listExpired_loop.simps)
  apply (subst listExpired_loop.simps)
  apply (simp add: sample_timers_def addTimer_def addTimer_handle_def TimerManager_new_def
      Timer_new_def plus_ms_def wrap_int64_def listExpired_cond_def listExpired_body_def Let_def)
  done

text \<open>
  C5. The code does not do what the claim says: under rollover the loop condition
  \<^verbatim>\<open>!m_timers.empty() && rollover\<close> stays true as long as the set is not empty, and a
  recurring timer is put back in every round. With one recurring timer in the set, of
  any period and any deadline, and the clock more than an hour behind
  \<^verbatim>\<open>m_previouseTime\<close>, \<^verbatim>\<open>listExpiredCb\<close> does not return.
\<close>

theorem listExpiredCb_rollover_recurring_diverges:
  "listExpiredCb now 0
     \<lparr> heap = h(t := \<lparr> m_recurring = True, m_ms = ms, m_next = nxt, m_cb = k \<rparr>),
       fresh = f, m_timers = [t], m_tickled = tk, m_previouseTime = 3600000000001 \<rparr> ks
   = None"
  by (simp add: listExpiredCb_def detectClockRollover_def loop_never_returns lone_recurring_def)

text \<open>
  C7. \<^verbatim>\<open>getNextTimer\<close> clears \<^verbatim>\<open>m_tickled\<close> and changes nothing else. On an empty
  set it returns the largest 64-bit value. Otherwise, with \<open>earliest\<close> the smallest
  deadline in the set, it returns 0 when \<open>earliest\<close> is not after \<open>now\<close> and the number of
  whole milliseconds from \<open>now\<close> to \<open>earliest\<close> when it is. The set is in comparator
  order, and the clock readings and their difference are 64-bit counts.
\<close>

theorem getNextTimer_result:
  assumes "timers_sorted st" and "clock_ok now st"
  shows "snd (getNextTimer now st) = st\<lparr> m_tickled := False \<rparr>
     \<and> (m_timers st = [] \<longrightarrow> uint (fst (getNextTimer now st)) = 2 ^ 64 - 1)
     \<and> (m_timers st \<noteq> [] \<longrightarrow>
          (let earliest = Min ((\<lambda>t. m_next (heap st t)) ` set (m_timers st)) in
             (earliest \<le> now \<longrightarrow> fst (getNextTimer now st) = 0)
           \<and> (now < earliest \<longrightarrow>
                uint (fst (getNextTimer now st)) = (earliest - now) div 1000000)))"
proof (cases "m_timers st")
  case Nil
  then show ?thesis
    by (simp add: getNextTimer_def unsigned_minus_1_eq_mask mask_eq_exp_minus_1)
next
  case (Cons x xs)
  have srt: "sorted_wrt (\<lambda>a b. m_next (heap st a) < m_next (heap st b)) (x # xs)"
    using assms(1) Cons by (simp add: timers_sorted_def Comparator_def[abs_def])
  have mn: "Min ((\<lambda>t. m_next (heap st t)) ` set (m_timers st)) = m_next (heap st x)"
    unfolding Cons by (rule head_is_Min[OF srt])
  have rng: "in_int64 (m_next (heap st x) - now)"
    using assms(2) Cons by (simp add: clock_ok_def)
  have val: "now < m_next (heap st x) \<Longrightarrow>
      uint (word_of_int ((m_next (heap st x) - now) div 1000000) :: 64 word)
        = (m_next (heap st x) - now) div 1000000"
    using rng by (intro ms_word_range) (auto simp: in_int64_def)
  show ?thesis
    using Cons mn val by (auto simp: getNextTimer_def Let_def)
qed

theorem getNextTimer_result_witness:
  "timers_sorted sample_timers \<and> clock_ok 1000000 sample_timers
   \<and> uint (fst (getNextTimer 1000000 sample_timers)) = 4
   \<and> fst (getNextTimer 5000000 sample_timers) = 0
   \<and> m_tickled (snd (getNextTimer 1000000 sample_timers)) = False"
  using getNextTimer_result [where st = sample_timers and now = 1000000]
    getNextTimer_result [where st = sample_timers and now = 5000000]
  by (simp add: sample_timers_def addTimer_def addTimer_handle_def TimerManager_new_def
      Timer_new_def plus_ms_def wrap_int64_def timers_sorted_def clock_ok_def in_int64_def Let_def)

section \<open>Results: stopping\<close>

lemma sample_ctxs:
  "m_fdContexts sample_reactor ! 3 = Some (FdContext_new 3)"
  "length (m_fdContexts sample_reactor) = 32"
  by (simp_all add: sample_reactor_def contextResize_def length_resize resize_def)

lemma sample_reading_ctx:
  "length (m_fdContexts sample_reactor_reading) = 32"
  "m_fdContexts sample_reactor_reading ! 3 = Some ((FdContext_new 3)
                   \<lparr> read_ctx := \<lparr> scheduler = Some 0, fiber = None, cb = Some 9 \<rparr>,
                     events := READ \<rparr>)"
  by (simp_all add: sample_reactor_reading_def sample_ctxs)

text \<open>
  C6. \<^verbatim>\<open>Scheduler::stopping\<close> is true exactly when the stopping flag is set, the task
  queue is empty and the count of active threads is zero. \<^verbatim>\<open>IOManager::stopping\<close> is
  true exactly when, besides these three, the count of pending events is zero and the
  timer set is empty. The clock readings and their difference are 64-bit counts.
\<close>

theorem stopping_conditions:
  assumes "clock_ok now (base_TimerManager io)"
  shows "(Scheduler_stopping s \<longleftrightarrow>
            m_stopping s \<and> m_tasks s = [] \<and> m_activeThreadCount s = 0)
     \<and> (fst (IOManager_stopping now io) \<longleftrightarrow>
            m_stopping (base_Scheduler io) \<and> m_tasks (base_Scheduler io) = []
          \<and> m_activeThreadCount (base_Scheduler io) = 0
          \<and> m_pendingEventCount io = 0
          \<and> m_timers (base_TimerManager io) = [])"
proof -
  have "fst (getNextTimer now (base_TimerManager io)) = NOT 0
      \<longleftrightarrow> m_timers (base_TimerManager io) = []"
    using assms by (rule getNextTimer_sentinel_iff)
  then show ?thesis
    by (auto simp: IOManager_stopping_def Scheduler_stopping_def split: prod.splits)
qed

theorem stopping_conditions_witness:
  "clock_ok 0 (base_TimerManager sample_reactor) \<and> Scheduler_stopping sample_scheduler
   \<and> fst (IOManager_stopping 0 sample_reactor)
   \<and> \<not> fst (IOManager_stopping 0 sample_reactor_reading)
   \<and> \<not> fst (IOManager_stopping 0 (sample_reactor\<lparr> base_TimerManager := sample_timers \<rparr>))"
  using stopping_conditions [where now = 0 and io = sample_reactor and s = sample_scheduler]
    stopping_conditions [where now = 0 and io = sample_reactor_reading and s = sample_scheduler]
    stopping_conditions [where now = 0 and s = sample_scheduler
      and io = "sample_reactor\<lparr> base_TimerManager := sample_timers \<rparr>"]
  by (simp add: clock_ok_def in_int64_def sample_reactor_def sample_reactor_reading_def sample_scheduler_def
      TimerManager_new_def sample_timers_def addTimer_def addTimer_handle_def Timer_new_def
      plus_ms_def wrap_int64_def Let_def)

section \<open>Results: event registration\<close>

text \<open>
  C3. When the context of \<open>fd\<close> already has the bit of \<open>event\<close> in its mask,
  \<^verbatim>\<open>addEvent\<close> returns -1 and the reactor is as it was: masks, slots and the count of
  pending events. This holds whatever the poller would answer and whatever callback is
  passed.
\<close>

theorem addEvent_duplicate_fails:
  assumes "0 \<le> fdn" and "nat fdn < length (m_fdContexts io)"
    and "m_fdContexts io ! nat fdn = Some c"
    and "events c AND ev \<noteq> 0"
  shows "addEvent rt sch fib fs fdn ev k io = Inr (- 1, io)"
proof -
  have "fdn < int (length (m_fdContexts io))" using assms(1,2) by linarith
  then show ?thesis using assms by (simp add: addEvent_def)
qed

theorem addEvent_duplicate_fails_witness:
  "nat 3 < length (m_fdContexts sample_reactor_reading)
   \<and> m_fdContexts sample_reactor_reading ! nat 3
       = Some ((FdContext_new 3)
                 \<lparr> read_ctx := \<lparr> scheduler = Some 0, fiber = None, cb = Some 9 \<rparr>,
                   events := READ \<rparr>)
   \<and> READ AND READ \<noteq> 0
   \<and> addEvent 0 (Some 0) 7 RUNNING 3 READ (Some 8) sample_reactor_reading
     = Inr (- 1, sample_reactor_reading)"
  using addEvent_duplicate_fails
    [where fdn = 3 and io = sample_reactor_reading and ev = READ and rt = 0
       and sch = "Some 0" and fib = 7 and fs = RUNNING and k = "Some 8"
       and c = "(FdContext_new 3)
                 \<lparr> read_ctx := \<lparr> scheduler = Some 0, fiber = None, cb = Some 9 \<rparr>,
                   events := READ \<rparr>"]
  by (simp add: sample_reading_ctx READ_def)







section \<open>Results: hooked I/O\<close>

lemma do_io_enters_retry:
  assumes "returned_handle (FdManager_get None fdn False mgr) = Some ctx"
    and "\<not> m_isClosed ctx" and "m_isSocket ctx" and "\<not> m_userNonblock ctx"
  shows "do_io True mgr fdn ev so answers
     = do_io_retry fdn ev (FdCtx_getTimeout so ctx) \<lparr> cancelled = 0 \<rparr> answers []"
  using assms by (simp add: do_io_def)

text \<open>
  Without a timeout (\<^verbatim>\<open>(uint64_t)-1\<close>) no timer is armed and none is cancelled.
\<close>

lemma do_io_retry_without_timer:
  assumes "cancelled ti = 0"
  shows "do_io_retry fdn ev (NOT 0) ti (Raw (- 1) EAGAIN # AddEvent_rt 0 e # Resumed b # rest) tr
     = do_io_retry fdn ev (NOT 0) ti rest (tr @ [Call_fun, Call_addEvent fdn ev, Call_yield])"
  using assms by (simp add: EAGAIN_def EINTR_def ETIMEDOUT_def)


text \<open>
  C2. Take a descriptor whose context exists, is open, is a socket without the user's
  non-blocking flag, and carries a finite timeout; hooks are enabled. Then \<^verbatim>\<open>do_io\<close>
  enters the retry loop with a new witness. When the raw call returns -1 with
  \<^verbatim>\<open>EAGAIN\<close>, it arms a condition timer with that timeout, registers the event and
  yields. The timer's callback, run on a witness that is alive and not yet cancelled,
  sets \<open>cancelled\<close> to \<^verbatim>\<open>ETIMEDOUT\<close> and calls \<^verbatim>\<open>cancelEvent(fd, event)\<close>. After the
  fiber is resumed \<^verbatim>\<open>do_io\<close> cancels the timer; if the callback ran it returns -1 with
  \<^verbatim>\<open>errno\<close> \<^verbatim>\<open>ETIMEDOUT\<close>, otherwise it goes back to the raw call, and returns what
  that call returns when it is not -1.
\<close>

theorem do_io_timeout_path:
  assumes "returned_handle (FdManager_get None fdn False mgr) = Some ctx"
    and "\<not> m_isClosed ctx" and "m_isSocket ctx" and "\<not> m_userNonblock ctx"
    and "FdCtx_getTimeout so ctx = tmo" and "tmo \<noteq> NOT 0"
    and "cancelled ti = 0"
  shows "OnTimer (Some ti) (timeout_cb fdn ev)
           = (Some (ti\<lparr> cancelled := ETIMEDOUT \<rparr>), [Call_cancelEvent fdn ev])
     \<and> do_io True mgr fdn ev so answers = do_io_retry fdn ev tmo \<lparr> cancelled = 0 \<rparr> answers []
     \<and> do_io_retry fdn ev tmo ti (Raw (- 1) EAGAIN # AddEvent_rt 0 e # Resumed True # rest) tr
           = Some ((- 1, ETIMEDOUT),
                   tr @ [Call_fun, Call_addConditionTimer tmo, Call_addEvent fdn ev, Call_yield,
                         Call_cancelEvent fdn ev, Call_Timer_cancel])
     \<and> do_io_retry fdn ev tmo ti (Raw (- 1) EAGAIN # AddEvent_rt 0 e # Resumed False # rest) tr
           = do_io_retry fdn ev tmo ti rest
               (tr @ [Call_fun, Call_addConditionTimer tmo, Call_addEvent fdn ev, Call_yield,
                      Call_Timer_cancel])
     \<and> (n \<noteq> - 1 \<longrightarrow>
          do_io_retry fdn ev tmo ti
              (Raw (- 1) EAGAIN # AddEvent_rt 0 e # Resumed False # Raw n e' # rest) tr
            = Some ((n, e'),
                    tr @ [Call_fun, Call_addConditionTimer tmo, Call_addEvent fdn ev, Call_yield,
                          Call_Timer_cancel, Call_fun]))"
proof -
  have body: "OnTimer (Some ti) (timeout_cb fdn ev)
           = (Some (ti\<lparr> cancelled := ETIMEDOUT \<rparr>), [Call_cancelEvent fdn ev])"
    using assms(7) by (simp add: OnTimer_def timeout_cb_def)
  have enter: "do_io True mgr fdn ev so answers
      = do_io_retry fdn ev tmo \<lparr> cancelled = 0 \<rparr> answers []"
    using do_io_enters_retry[OF assms(1-4)] assms(5) by simp
  have codes: "EAGAIN \<noteq> EINTR" "ETIMEDOUT \<noteq> 0" by (simp_all add: EAGAIN_def EINTR_def ETIMEDOUT_def)
  have fired: "do_io_retry fdn ev tmo ti (Raw (- 1) EAGAIN # AddEvent_rt 0 e # Resumed True # rest) tr
           = Some ((- 1, ETIMEDOUT),
                   tr @ [Call_fun, Call_addConditionTimer tmo, Call_addEvent fdn ev, Call_yield,
                         Call_cancelEvent fdn ev, Call_Timer_cancel])"
    using assms(6) codes body by (simp add: Let_def)
  have quiet: "do_io_retry fdn ev tmo ti (Raw (- 1) EAGAIN # AddEvent_rt 0 e # Resumed False # rest') tr
           = do_io_retry fdn ev tmo ti rest'
               (tr @ [Call_fun, Call_addConditionTimer tmo, Call_addEvent fdn ev, Call_yield,
                      Call_Timer_cancel])" for rest'
    using assms(6,7) codes by (simp add: Let_def)
  have again: "n \<noteq> - 1 \<Longrightarrow> do_io_retry fdn ev tmo ti (Raw n e' # rest) tr'
      = Some ((n, e'), tr' @ [Call_fun])" for tr'
    by simp
  show ?thesis using body enter fired quiet again by simp
qed

lemma sample_socket:
  "returned_handle (FdManager_get None 5 False sample_registry)
     = Some ((FdCtx_new (Some True) 5)\<lparr> m_recvTimeout := 50 \<rparr>)"
  by (simp add: sample_registry_def FdManager_get_def FdManager_new_def returned_handle_def
      to_size_t_def Let_def)

theorem do_io_timeout_path_witness:
  "returned_handle (FdManager_get None 5 False sample_registry)
     = Some ((FdCtx_new (Some True) 5)\<lparr> m_recvTimeout := 50 \<rparr>)
   \<and> FdCtx_getTimeout SO_RCVTIMEO ((FdCtx_new (Some True) 5)\<lparr> m_recvTimeout := 50 \<rparr>) = 50
   \<and> do_io True sample_registry 5 READ SO_RCVTIMEO
      [Raw (- 1) EAGAIN, AddEvent_rt 0 EAGAIN, Resumed True]
     = Some ((- 1, ETIMEDOUT),
             [Call_fun, Call_addConditionTimer 50, Call_addEvent 5 READ, Call_yield,
              Call_cancelEvent 5 READ, Call_Timer_cancel])
   \<and> do_io True sample_registry 5 READ SO_RCVTIMEO
      [Raw (- 1) EAGAIN, AddEvent_rt 0 EAGAIN, Resumed False, Raw 1 0]
     = Some ((1, 0),
             [Call_fun, Call_addConditionTimer 50, Call_addEvent 5 READ, Call_yield,
              Call_Timer_cancel, Call_fun])"
  using do_io_timeout_path
      [where fdn = 5 and mgr = sample_registry and so = SO_RCVTIMEO and tmo = 50
         and ctx = "(FdCtx_new (Some True) 5)\<lparr> m_recvTimeout := 50 \<rparr>"
         and ti = "\<lparr> cancelled = 0 \<rparr>" and ev = READ and e = EAGAIN and tr = "[]"
         and answers = "[Raw (- 1) EAGAIN, AddEvent_rt 0 EAGAIN, Resumed True]"
         and rest = "[]" and n = 1 and e' = 0]
    do_io_timeout_path
      [where fdn = 5 and mgr = sample_registry and so = SO_RCVTIMEO and tmo = 50
         and ctx = "(FdCtx_new (Some True) 5)\<lparr> m_recvTimeout := 50 \<rparr>"
         and ti = "\<lparr> cancelled = 0 \<rparr>" and ev = READ and e = EAGAIN and tr = "[]"
         and answers = "[Raw (- 1) EAGAIN, AddEvent_rt 0 EAGAIN, Resumed False, Raw 1 0]"
         and rest = "[]" and n = 1 and e' = 0]
  by (simp add: sample_socket FdCtx_new_def FdCtx_init_def FdCtx_fields_def
      FdCtx_getTimeout_def Let_def)

end
